theory Spec2Isabelle
  imports Complex_Main "HOL-Library.Sublist"
begin

section \<open>Values shared by the publisher's operations\<close>

text \<open>
  A JavaScript \<^verbatim>\<open>throw\<close> carries any value. The code tests
  \<^verbatim>\<open>error instanceof Error\<close> in its catch blocks, so the model keeps the two kinds apart:
  an \<^verbatim>\<open>Error\<close> object with its message, and any other thrown value.
\<close>

datatype thrown = Error string | NonError string

text \<open>
  The final state of the promise an \<^verbatim>\<open>async\<close> function (or a \<^verbatim>\<open>new Promise\<close>) hands
  back. \<open>Pending\<close> is a promise that never settles.
\<close>

datatype 'a promise = Pending | Resolved 'a | Rejected thrown

text \<open>The effects on the outside world, in the order in which the code performs them.\<close>

record unsigned_event =
  kind :: nat
  created_at :: int
  event_content :: string
  event_tags :: "string list list"

record signed_event =
  event_id :: string
  payload :: unsigned_event

datatype effect =
    SignEvent unsigned_event
  | Publish "string list" signed_event
  | Subscribe "string list" string
  | SetTimeout nat
  | ClearTimeout
  | Unsubscribe
  | Sleep int
  | FetchLatestArticles int

section \<open>The confirmation wait (\<^verbatim>\<open>waitForPublication\<close>)\<close>

text \<open>\<^verbatim>\<open>Math.ceil(relays.length / 2)\<close>, on the length of an array.\<close>

definition quorum :: "nat \<Rightarrow> nat" where
  "quorum n = nat \<lceil>real n / 2\<rceil>"

text \<open>
  The state the executor of the promise and its two callbacks share: the counter
  \<^verbatim>\<open>confirmations\<close>, whether the subscription is still live, whether the timeout is
  still armed, the promise itself, and the effects performed so far.
\<close>

record wait_state =
  confirmations :: nat
  subscribed :: bool
  timer_pending :: bool
  settled :: "unit promise"
  effects :: "effect list"

text \<open>\<^verbatim>\<open>resolve()\<close>: settles a pending promise and leaves a settled one as it is.\<close>

fun resolve :: "unit promise \<Rightarrow> unit promise" where
  "resolve Pending = Resolved ()"
| "resolve p = p"

text \<open>
  The executor, which runs synchronously: it opens the subscription on the relay list,
  filtered to the event identifier, and arms the 5000 ms timeout.
\<close>

definition executor :: "string \<Rightarrow> string list \<Rightarrow> wait_state" where
  "executor eventId relays =
     \<lparr>confirmations = 0, subscribed = True, timer_pending = True, settled = Pending,
      effects = [Subscribe relays eventId, SetTimeout 5000]\<rparr>"

text \<open>The callback of the subscription, run once for every event the subscription yields.\<close>

definition on_event :: "string list \<Rightarrow> wait_state \<Rightarrow> wait_state" where
  "on_event relays w =
     (let w1 = w\<lparr>confirmations := confirmations w + 1\<rparr> in
      if quorum (length relays) \<le> confirmations w1
      then w1\<lparr>timer_pending := False, subscribed := False,
              settled := resolve (settled w1),
              effects := effects w1 @ [ClearTimeout, Unsubscribe]\<rparr>
      else w1)"

text \<open>The callback of the timeout.\<close>

definition on_timeout :: "wait_state \<Rightarrow> wait_state" where
  "on_timeout w =
     w\<lparr>subscribed := False, timer_pending := False,
       settled := resolve (settled w),
       effects := effects w @ [Unsubscribe]\<rparr>"

text \<open>
  What the event loop hands to the wait, after the executor has run: the pool reads its
  events from the network. A subscription that was unsubscribed calls its callback no
  more, and a timeout that was cleared, or that has fired, does not fire.
\<close>

datatype wait_event = Observed | TimerFired

fun deliver :: "string list \<Rightarrow> wait_state \<Rightarrow> wait_event \<Rightarrow> wait_state" where
  "deliver relays w Observed = (if subscribed w then on_event relays w else w)"
| "deliver relays w TimerFired = (if timer_pending w then on_timeout w else w)"

text \<open>The wait after the event loop has delivered the events \<open>evs\<close>, oldest first.\<close>

definition waitForPublication :: "string \<Rightarrow> string list \<Rightarrow> wait_event list \<Rightarrow> wait_state" where
  "waitForPublication eventId relays evs = foldl (deliver relays) (executor eventId relays) evs"

text \<open>
  The events of one wait when the relays deliver \<open>n\<close> matching events within the
  5000 ms: those observations, then the timeout. Whatever follows the timeout is
  dropped by \<open>deliver\<close>.
\<close>

definition event_loop :: "nat \<Rightarrow> wait_event list" where
  "event_loop n = replicate n Observed @ [TimerFired]"

section \<open>The event builder\<close>

text \<open>
  \<^verbatim>\<open>RektArticle\<close>. \<open>publishedAt\<close> is the time value of the \<^verbatim>\<open>Date\<close> in milliseconds
  since the epoch; the scraper stores a parsed date only after checking that its time
  value is a number, so the date of an article is a valid one. The optional fields are
  \<open>None\<close> when they are \<^verbatim>\<open>undefined\<close>.
\<close>

record article =
  title :: string
  url :: string
  content :: string
  publishedAt :: int
  summary :: "string option"
  image :: "string option"
  tags :: "string list"

text \<open>
  \<^verbatim>\<open>urlPath.replace(/^\//, "")\<close> and \<^verbatim>\<open>.replace(/\/$/, "")\<close>: a regular expression
  without the global flag replaces its first match only, and each of the two is anchored.
\<close>

fun strip_leading_slash :: "string \<Rightarrow> string" where
  "strip_leading_slash [] = []"
| "strip_leading_slash (c # cs) = (if c = CHR ''/'' then cs else c # cs)"

definition strip_trailing_slash :: "string \<Rightarrow> string" where
  "strip_trailing_slash s = (if s \<noteq> [] \<and> last s = CHR ''/'' then butlast s else s)"

text \<open>
  \<^verbatim>\<open>createArticleId\<close>. The \<^verbatim>\<open>URL\<close> class belongs to the runtime: \<open>pathname u\<close> is
  \<^verbatim>\<open>new URL(u).pathname\<close>, and \<open>None\<close> where the constructor throws its \<^verbatim>\<open>TypeError\<close>.
  The empty string is the one falsy string, which \<^verbatim>\<open>||\<close> replaces by the literal.
\<close>

definition createArticleId :: "(string \<Rightarrow> string option) \<Rightarrow> string \<Rightarrow> thrown + string" where
  "createArticleId pathname u =
     (case pathname u of
        None \<Rightarrow> Inl (Error ''Invalid URL'')
      | Some urlPath \<Rightarrow>
          (let stripped = strip_trailing_slash (strip_leading_slash urlPath)
           in Inr (if stripped = [] then ''article'' else stripped)))"

text \<open>\<^verbatim>\<open>Number.prototype.toString\<close> on an integer below \<open>10\<^sup>2\<^sup>1\<close> in magnitude.\<close>

function nat_toString :: "nat \<Rightarrow> string" where
  "nat_toString n =
     (if n < 10 then [''0123456789'' ! n]
      else nat_toString (n div 10) @ [''0123456789'' ! (n mod 10)])"
  by pat_completeness auto
termination
  by (relation "measure id") auto

declare nat_toString.simps [simp del]

definition number_toString :: "int \<Rightarrow> string" where
  "number_toString i = (if i < 0 then CHR ''-'' # nat_toString (nat (- i)) else nat_toString (nat i))"

text \<open>
  \<^verbatim>\<open>buildTags\<close>, with the array \<^verbatim>\<open>tags\<close> after each group of pushes.
  \<^verbatim>\<open>Math.floor(getTime() / 1000)\<close> is the floor of the division, which is \<open>div\<close> on
  \<open>int\<close>. \<open>toLowerCase\<close> is \<^verbatim>\<open>String.prototype.toLowerCase\<close> of the runtime. An
  optional string is truthy when it is defined and not empty.
\<close>

definition buildTags :: "(string \<Rightarrow> string) \<Rightarrow> article \<Rightarrow> string \<Rightarrow> string list list" where
  "buildTags toLowerCase a articleId =
     (let tags0 = [[''d'', articleId],
                   [''title'', title a],
                   [''published_at'', number_toString (publishedAt a div 1000)],
                   [''client'', ''rekt-nostr-mirror''],
                   [''r'', url a]];
          tags1 = (case summary a of
                     Some s \<Rightarrow> if s \<noteq> [] then tags0 @ [[''summary'', s]] else tags0
                   | None \<Rightarrow> tags0);
          tags2 = (case image a of
                     Some i \<Rightarrow> if i \<noteq> [] then tags1 @ [[''image'', i]] else tags1
                   | None \<Rightarrow> tags1);
          tags3 = foldl (\<lambda>acc tag. acc @ [[''t'', toLowerCase tag]]) tags2 (tags a)
      in tags3 @ [[''subject'', ''DeFi Security''], [''subject'', ''Blockchain'']])"

section \<open>The publication orchestrator\<close>

datatype signer = PrivateKeySigner string | NostrConnectSigner string

record NIP23Publisher =
  signer :: "signer option"

definition defaultRelays :: "string list" where
  "defaultRelays =
     [''wss://relay.damus.io'', ''wss://nos.lol'', ''wss://relay.nostr.band'',
      ''wss://nostr.wine'', ''wss://relay.snort.social'']"

text \<open>\<^verbatim>\<open>PublishOptions\<close>; \<open>opt_relays\<close> is \<open>None\<close> when \<^verbatim>\<open>relays\<close> is absent.\<close>

record PublishOptions =
  opt_relays :: "string list option"
  opt_signerString :: string

text \<open>
  What the outside world does during one call of \<^verbatim>\<open>publishArticle\<close>: the runtime
  (\<^verbatim>\<open>URL\<close>, \<^verbatim>\<open>toLowerCase\<close>, \<^verbatim>\<open>Date.now()\<close> in milliseconds), the signer's
  \<^verbatim>\<open>signEvent\<close>, the pool's \<^verbatim>\<open>publish\<close>, and the number of matching events the pool's
  subscription yields within the 5000 ms of the wait.
\<close>

record env =
  pathname :: "string \<Rightarrow> string option"
  toLowerCase :: "string \<Rightarrow> string"
  now :: int
  signEvent :: "signer \<Rightarrow> unsigned_event \<Rightarrow> thrown + signed_event"
  publish :: "string list \<Rightarrow> signed_event \<Rightarrow> thrown + unit"
  arrivals :: "string list \<Rightarrow> string \<Rightarrow> nat"

text \<open>
  \<^verbatim>\<open>publishArticle\<close>: the effects it performs and the final state of the promise it
  returns. An array is truthy even when empty, so \<^verbatim>\<open>options.relays || this.defaultRelays\<close>
  takes the default only when \<^verbatim>\<open>relays\<close> is absent. The catch block logs and throws the
  error again.
\<close>

definition publishArticle ::
  "NIP23Publisher \<Rightarrow> env \<Rightarrow> article \<Rightarrow> string \<Rightarrow> PublishOptions \<Rightarrow> effect list \<times> string promise" where
  "publishArticle this e a markdownContent options =
     (case signer this of
        None \<Rightarrow> ([], Rejected (Error ''Publisher not initialized. Call initialize() first.''))
      | Some sg \<Rightarrow>
          (let relays = (case opt_relays options of None \<Rightarrow> defaultRelays | Some rs \<Rightarrow> rs) in
           case createArticleId (pathname e) (url a) of
             Inl err \<Rightarrow> ([], Rejected err)
           | Inr articleId \<Rightarrow>
               (let event = \<lparr>kind = 30023, created_at = now e div 1000,
                             event_content = markdownContent,
                             event_tags = buildTags (toLowerCase e) a articleId\<rparr> in
                case signEvent e sg event of
                  Inl err \<Rightarrow> ([SignEvent event], Rejected err)
                | Inr signedEvent \<Rightarrow>
                    (case publish e relays signedEvent of
                       Inl err \<Rightarrow> ([SignEvent event, Publish relays signedEvent], Rejected err)
                     | Inr _ \<Rightarrow>
                         (let w = waitForPublication (event_id signedEvent) relays
                                    (event_loop (arrivals e relays (event_id signedEvent)))
                          in (SignEvent event # Publish relays signedEvent # effects w,
                              case settled w of
                                Pending \<Rightarrow> Pending
                              | Resolved _ \<Rightarrow> Resolved (event_id signedEvent)
                              | Rejected err \<Rightarrow> Rejected err))))))"

text \<open>
  The loop of \<^verbatim>\<open>publishMultipleArticles\<close> from index \<open>i\<close> on, with the identifiers
  and the effects collected so far. \<open>envs i\<close> is the outside world during item \<open>i\<close>.
  The delay stands inside the \<^verbatim>\<open>try\<close> block, after the push; the catch block logs and
  goes on with the next index.
\<close>

function publish_loop ::
  "NIP23Publisher \<Rightarrow> (nat \<Rightarrow> env) \<Rightarrow> (article \<times> string) list \<Rightarrow> PublishOptions \<Rightarrow> int \<Rightarrow>
   nat \<Rightarrow> string list \<Rightarrow> effect list \<Rightarrow> effect list \<times> string list promise" where
  "publish_loop this envs articles options delayMs i eventIds trace =
     (if i < length articles then
        (let r = publishArticle this (envs i) (fst (articles ! i)) (snd (articles ! i)) options in
         case snd r of
           Resolved eventId \<Rightarrow>
             (if int i < int (length articles) - 1
              then publish_loop this envs articles options delayMs (i + 1)
                     (eventIds @ [eventId]) (trace @ fst r @ [Sleep delayMs])
              else publish_loop this envs articles options delayMs (i + 1)
                     (eventIds @ [eventId]) (trace @ fst r))
         | Rejected err \<Rightarrow>
             publish_loop this envs articles options delayMs (i + 1) eventIds (trace @ fst r)
         | Pending \<Rightarrow> (trace @ fst r, Pending))
      else (trace, Resolved eventIds))"
  by pat_completeness auto
termination
  by (relation "measure (\<lambda>(this, envs, articles, options, delayMs, i, eventIds, trace).
        length articles - i)") auto

declare publish_loop.simps [simp del]

text \<open>\<^verbatim>\<open>publishMultipleArticles\<close>; \<open>delayMs\<close> is \<open>None\<close> when the argument is left out.\<close>

definition publishMultipleArticles ::
  "NIP23Publisher \<Rightarrow> (nat \<Rightarrow> env) \<Rightarrow> (article \<times> string) list \<Rightarrow> PublishOptions \<Rightarrow> int option \<Rightarrow>
   effect list \<times> string list promise" where
  "publishMultipleArticles this envs articles options delayMs =
     publish_loop this envs articles options (case delayMs of None \<Rightarrow> 5000 | Some d \<Rightarrow> d) 0 [] []"

section \<open>Signer creation and initialization\<close>

text \<open>
  The signer library: \<^verbatim>\<open>PrivateKeySigner.fromKey\<close> (its result is the key the signer
  holds), \<^verbatim>\<open>NostrConnectSigner.fromBunkerURI\<close> (its result is the remote signer it is
  connected to) and \<^verbatim>\<open>getPublicKey\<close>. Each of them returns or throws.
\<close>

record signer_library =
  fromKey :: "string \<Rightarrow> thrown + string"
  fromBunkerURI :: "string \<Rightarrow> thrown + string"
  getPublicKey :: "signer \<Rightarrow> thrown + string"

text \<open>The last two statements of \<^verbatim>\<open>createSigner\<close>: validate the signer, then return it.\<close>

definition validated :: "signer_library \<Rightarrow> signer \<Rightarrow> thrown + signer" where
  "validated lib sg = (case getPublicKey lib sg of Inl err \<Rightarrow> Inl err | Inr _ \<Rightarrow> Inr sg)"

text \<open>
  \<^verbatim>\<open>createSigner\<close>; \<^verbatim>\<open>startsWith\<close> is \<open>prefix\<close> and \<^verbatim>\<open>substring(0, 10)\<close> is \<open>take 10\<close>.
  The bunker branch first hands the pool's two methods to the library.
\<close>

definition createSigner :: "signer_library \<Rightarrow> string \<Rightarrow> thrown + signer" where
  "createSigner lib signerString =
     (if prefix ''nsec'' signerString then
        (case fromKey lib signerString of
           Inl err \<Rightarrow> Inl err
         | Inr k \<Rightarrow> validated lib (PrivateKeySigner k))
      else if prefix ''ncryptsec'' signerString then
        Inl (Error ''Ncryptsec signers are not supported'')
      else if prefix ''bunker://'' signerString then
        (case fromBunkerURI lib signerString of
           Inl err \<Rightarrow> Inl err
         | Inr c \<Rightarrow> validated lib (NostrConnectSigner c))
      else
        Inl (Error (''Invalid signer provided: '' @ take 10 signerString @
                    ''... Must start with '' @ [CHR 0x27] @ ''nsec'' @ [CHR 0x27] @
                    '' or '' @ [CHR 0x27] @ ''bunker://'' @ [CHR 0x27])))"

text \<open>
  \<^verbatim>\<open>initialize\<close>: \<open>Inr\<close> the publisher when the promise resolves, \<open>Inl\<close> the error when
  it rejects. The new error is thrown under \<^verbatim>\<open>if (error instanceof Error)\<close>; a thrown
  value of another kind ends the catch block, and the method returns.
\<close>

definition initialize :: "signer_library \<Rightarrow> NIP23Publisher \<Rightarrow> string \<Rightarrow> thrown + NIP23Publisher" where
  "initialize lib this signerString =
     (case createSigner lib signerString of
        Inr sg \<Rightarrow> Inr (this\<lparr>signer := Some sg\<rparr>)
      | Inl (Error msg) \<Rightarrow> Inl (Error (''Failed to initialize signer: '' @ msg))
      | Inl (NonError v) \<Rightarrow> Inr this)"

section \<open>The run controller\<close>

record Config =
  cfg_signerString :: string
  articleLimit :: int
  publishDelay :: int
  cfg_relays :: "string list option"
  dryRun :: bool

text \<open>
  The content source and the transformer: \<^verbatim>\<open>fetchLatestArticles\<close>, and
  \<^verbatim>\<open>convertRektArticle\<close> with its result's \<^verbatim>\<open>markdown\<close> and \<^verbatim>\<open>extractedImage\<close>.
\<close>

record site =
  fetchLatestArticles :: "int \<Rightarrow> thrown + article list"
  convertRektArticle :: "string \<Rightarrow> string \<Rightarrow> thrown + string \<times> string option"

text \<open>
  The loop of \<^verbatim>\<open>run\<close> over the fetched articles: a conversion shorter than 100 is
  skipped, and an extracted image replaces the article's image. Every element of a list
  is an article, so the test \<^verbatim>\<open>if (!article) continue\<close> never fires.
\<close>

fun process_articles ::
  "(string \<Rightarrow> string \<Rightarrow> thrown + string \<times> string option) \<Rightarrow> article list \<Rightarrow>
   (article \<times> string) list \<Rightarrow> thrown + (article \<times> string) list" where
  "process_articles convert [] processedArticles = Inr processedArticles"
| "process_articles convert (a # rest) processedArticles =
     (case convert (content a) (url a) of
        Inl err \<Rightarrow> Inl err
      | Inr (markdown, extractedImage) \<Rightarrow>
          if length markdown < 100 then process_articles convert rest processedArticles
          else
            (let updatedArticle =
                   (case extractedImage of
                      Some i \<Rightarrow> if i \<noteq> [] then a\<lparr>image := Some i\<rparr> else a
                    | None \<Rightarrow> a)
             in process_articles convert rest (processedArticles @ [(updatedArticle, markdown)])))"

text \<open>
  How \<^verbatim>\<open>run\<close> ends: it returns, or its catch block calls \<^verbatim>\<open>process.exit(1)\<close>, or it
  stays blocked on a promise that never settles.
\<close>

datatype run_outcome = Returned | Exit nat | Blocked

definition run ::
  "signer_library \<Rightarrow> site \<Rightarrow> (nat \<Rightarrow> env) \<Rightarrow> NIP23Publisher \<Rightarrow> Config \<Rightarrow> effect list \<times> run_outcome" where
  "run lib st envs this config =
     (case (if \<not> dryRun config then initialize lib this (cfg_signerString config) else Inr this) of
        Inl err \<Rightarrow> ([], Exit 1)
      | Inr this' \<Rightarrow>
          (case fetchLatestArticles st (articleLimit config) of
             Inl err \<Rightarrow> ([FetchLatestArticles (articleLimit config)], Exit 1)
           | Inr articles \<Rightarrow>
               if articles = [] then ([FetchLatestArticles (articleLimit config)], Returned)
               else
                 (case process_articles (convertRektArticle st) articles [] of
                    Inl err \<Rightarrow> ([FetchLatestArticles (articleLimit config)], Exit 1)
                  | Inr processedArticles \<Rightarrow>
                      if processedArticles = [] then
                        ([FetchLatestArticles (articleLimit config)], Returned)
                      else if dryRun config then
                        ([FetchLatestArticles (articleLimit config)], Returned)
                      else
                        (let publishOptions = \<lparr>opt_relays = cfg_relays config,
                                                opt_signerString = cfg_signerString config\<rparr>;
                             r = publishMultipleArticles this' envs processedArticles
                                   publishOptions (Some (publishDelay config))
                         in (FetchLatestArticles (articleLimit config) # fst r,
                             case snd r of
                               Resolved eventIds \<Rightarrow> Returned
                             | Rejected err \<Rightarrow> Exit 1
                             | Pending \<Rightarrow> Blocked)))))"

section \<open>The invariant of the confirmation wait\<close>

text \<open>
  The subscription is live and the timeout armed exactly while the promise is pending;
  the promise is never rejected; once it is settled, the subscription has been released.
\<close>

definition wait_inv :: "wait_state \<Rightarrow> bool" where
  "wait_inv w \<longleftrightarrow>
     (subscribed w \<longleftrightarrow> settled w = Pending) \<and> (timer_pending w \<longleftrightarrow> settled w = Pending) \<and>
     (settled w = Pending \<or> settled w = Resolved ()) \<and>
     (settled w = Pending \<or> Unsubscribe \<in> set (effects w))"

section \<open>Notions used to state the properties\<close>

text \<open>
  What item \<open>i\<close> of a batch does and how it ends, the identifier of a resolved
  promise (none otherwise), and the delay the loop takes after item \<open>i\<close>.
\<close>

definition item_outcome ::
  "NIP23Publisher \<Rightarrow> (nat \<Rightarrow> env) \<Rightarrow> (article \<times> string) list \<Rightarrow> PublishOptions \<Rightarrow> nat \<Rightarrow>
   effect list \<times> string promise" where
  "item_outcome this envs articles options i =
     publishArticle this (envs i) (fst (articles ! i)) (snd (articles ! i)) options"

fun resolved_value :: "'a promise \<Rightarrow> 'a list" where
  "resolved_value (Resolved x) = [x]"
| "resolved_value _ = []"

fun is_sleep :: "effect \<Rightarrow> bool" where
  "is_sleep (Sleep d) = True"
| "is_sleep _ = False"

definition pause_after ::
  "NIP23Publisher \<Rightarrow> (nat \<Rightarrow> env) \<Rightarrow> (article \<times> string) list \<Rightarrow> PublishOptions \<Rightarrow> int \<Rightarrow> nat \<Rightarrow>
   effect list" where
  "pause_after this envs articles options delayMs i =
     (if resolved_value (snd (item_outcome this envs articles options i)) \<noteq> [] \<and> i + 1 < length articles
      then [Sleep delayMs] else [])"

text \<open>The number a string of decimal digits denotes.\<close>

definition digit_value :: "char \<Rightarrow> nat" where
  "digit_value c = length (takeWhile (\<lambda>d. d \<noteq> c) ''0123456789'')"

definition decimal_value :: "string \<Rightarrow> nat" where
  "decimal_value s = foldl (\<lambda>acc c. 10 * acc + digit_value c) 0 s"

section \<open>Sample inputs\<close>

text \<open>
  A runtime whose \<^verbatim>\<open>URL\<close> knows the addresses under \<^verbatim>\<open>https://site/\<close>, a signer that
  refuses the content \<^verbatim>\<open>bad\<close>, a pool that accepts every broadcast, and relays that
  each deliver the event once within the wait.
\<close>

definition sample_article :: "string \<Rightarrow> article" where
  "sample_article p =
     \<lparr>title = ''T'', url = ''https://site'' @ p, content = [], publishedAt = 1700000000999,
      summary = None, image = None, tags = [''Rekt'']\<rparr>"

definition sample_env :: env where
  "sample_env =
     \<lparr>pathname = (\<lambda>u. if prefix ''https://site/'' u then Some (drop 12 u) else None),
      toLowerCase = (\<lambda>s. if s = ''Rekt'' then ''rekt'' else s),
      now = 1700000000123,
      signEvent = (\<lambda>sg ev. if event_content ev = ''bad'' then Inl (Error ''signing failed'')
                            else Inr \<lparr>event_id = ''id-'' @ event_content ev, payload = ev\<rparr>),
      publish = (\<lambda>rs se. Inr ()),
      arrivals = (\<lambda>rs eventId. length rs)\<rparr>"

definition sample_envs :: "nat \<Rightarrow> env" where
  "sample_envs i = sample_env"

definition sample_publisher :: NIP23Publisher where
  "sample_publisher = \<lparr>signer = Some (PrivateKeySigner ''k'')\<rparr>"

definition sample_options :: PublishOptions where
  "sample_options = \<lparr>opt_relays = Some [''wss://r1'', ''wss://r2''], opt_signerString = ''nsec1k''\<rparr>"

definition sample_library :: signer_library where
  "sample_library =
     \<lparr>fromKey = (\<lambda>s. if s = ''nsec1good'' then Inr ''key'' else Inl (Error ''Invalid nsec'')),
      fromBunkerURI = (\<lambda>s. Inl (Error ''Bunker unreachable'')),
      getPublicKey = (\<lambda>sg. Inr ''pubkey'')\<rparr>"

text \<open>
  A library whose promises reject with a value that is not an \<^verbatim>\<open>Error\<close> object, and a
  site whose every conversion is long enough to publish.
\<close>

definition sample_failing_library :: signer_library where
  "sample_failing_library =
     \<lparr>fromKey = (\<lambda>s. Inr ''key''),
      fromBunkerURI = (\<lambda>s. Inl (NonError ''closed'')),
      getPublicKey = (\<lambda>sg. Inl (NonError ''rejected''))\<rparr>"

definition sample_long_site :: site where
  "sample_long_site =
     \<lparr>fetchLatestArticles = (\<lambda>limit. Inr [sample_article ''/a'']),
      convertRektArticle = (\<lambda>c u. Inr (replicate 100 CHR ''x'', None))\<rparr>"

definition sample_site :: site where
  "sample_site =
     \<lparr>fetchLatestArticles = (\<lambda>limit. Inr [sample_article ''/a'']),
      convertRektArticle = (\<lambda>c u. Inr (c, None))\<rparr>"

definition sample_config :: "string \<Rightarrow> Config" where
  "sample_config s =
     \<lparr>cfg_signerString = s, articleLimit = 50, publishDelay = 5000, cfg_relays = None,
      dryRun = False\<rparr>"

section \<open>Properties\<close>

subsection \<open>The quorum target\<close>

lemma quorum_half: "quorum n = (n + 1) div 2"
  unfolding quorum_def by linarith

subsection \<open>The confirmation wait\<close>

lemma wait_inv_executor: "wait_inv (executor eventId relays)"
  by (simp add: wait_inv_def executor_def)

lemma wait_inv_deliver: "wait_inv w \<Longrightarrow> wait_inv (deliver relays w ev)"
  by (cases ev) (auto simp: wait_inv_def on_event_def on_timeout_def Let_def)

lemma wait_inv_foldl: "wait_inv w \<Longrightarrow> wait_inv (foldl (deliver relays) w evs)"
  by (induction evs arbitrary: w) (simp_all add: wait_inv_deliver)

lemma wait_inv_wait: "wait_inv (waitForPublication eventId relays evs)"
  unfolding waitForPublication_def by (rule wait_inv_foldl [OF wait_inv_executor])

lemma settled_deliver: "wait_inv w \<Longrightarrow> settled w = Resolved () \<Longrightarrow> deliver relays w ev = w"
  by (cases ev) (auto simp: wait_inv_def)

lemma settled_foldl: "wait_inv w \<Longrightarrow> settled w = Resolved () \<Longrightarrow> foldl (deliver relays) w evs = w"
  by (induction evs) (simp_all add: settled_deliver)

lemma timer_settles: "wait_inv w \<Longrightarrow> settled (deliver relays w TimerFired) = Resolved ()"
  by (auto simp: wait_inv_def on_timeout_def)

lemma timer_settles_foldl:
  "wait_inv w \<Longrightarrow> TimerFired \<in> set evs \<Longrightarrow> settled (foldl (deliver relays) w evs) = Resolved ()"
proof (induction evs arbitrary: w)
  case Nil
  then show ?case by simp
next
  case (Cons ev evs)
  show ?case
  proof (cases "ev = TimerFired")
    case True
    have "settled (deliver relays w ev) = Resolved ()"
      using Cons.prems(1) True by (simp add: timer_settles del: deliver.simps)
    moreover have "wait_inv (deliver relays w ev)"
      using Cons.prems(1) by (rule wait_inv_deliver)
    ultimately show ?thesis by (simp add: settled_foldl del: deliver.simps)
  next
    case False
    with Cons.prems have "TimerFired \<in> set evs" by auto
    with Cons.IH [OF wait_inv_deliver [OF Cons.prems(1)]] show ?thesis by simp
  qed
qed

lemma replicate_snoc: "replicate (Suc k) x = replicate k x @ [x]"
  by (simp add: replicate_append_same)

lemma observed_below_quorum:
  "k < quorum (length relays) \<Longrightarrow>
   waitForPublication eventId relays (replicate k Observed) =
     (executor eventId relays)\<lparr>confirmations := k\<rparr>"
proof (induction k)
  case 0
  then show ?case by (simp add: waitForPublication_def executor_def)
next
  case (Suc k)
  then have "k < quorum (length relays)" by simp
  from Suc.IH [OF this] Suc.prems show ?case
    by (simp add: waitForPublication_def replicate_snoc on_event_def executor_def Let_def
        del: replicate_Suc)
qed


lemma observed_below_threshold:
  "k < max 1 (quorum (length relays)) \<Longrightarrow>
   waitForPublication eventId relays (replicate k Observed) =
     (executor eventId relays)\<lparr>confirmations := k\<rparr>"
proof (cases "k < quorum (length relays)")
  case True
  then show ?thesis by (rule observed_below_quorum)
next
  case False
  assume "k < max 1 (quorum (length relays))"
  with False have "k = 0" by simp
  then show ?thesis by (simp add: waitForPublication_def executor_def)
qed

lemma observed_threshold:
  "waitForPublication eventId relays (replicate (max 1 (quorum (length relays))) Observed) =
     \<lparr>confirmations = max 1 (quorum (length relays)), subscribed = False, timer_pending = False,
      settled = Resolved (),
      effects = [Subscribe relays eventId, SetTimeout 5000, ClearTimeout, Unsubscribe]\<rparr>"
proof -
  obtain k where k: "max 1 (quorum (length relays)) = Suc k"
    by (cases "max 1 (quorum (length relays))") auto
  then have "k < max 1 (quorum (length relays))" by simp
  from observed_below_threshold [OF this, of eventId] k show ?thesis
    by (simp add: waitForPublication_def replicate_snoc on_event_def executor_def Let_def
        del: replicate_Suc)
qed

lemma wait_confirmed:
  assumes "max 1 (quorum (length relays)) \<le> n"
  shows "waitForPublication eventId relays (event_loop n) =
     \<lparr>confirmations = max 1 (quorum (length relays)), subscribed = False, timer_pending = False,
      settled = Resolved (),
      effects = [Subscribe relays eventId, SetTimeout 5000, ClearTimeout, Unsubscribe]\<rparr>"
proof -
  let ?q = "max 1 (quorum (length relays))"
  let ?w = "waitForPublication eventId relays (replicate ?q Observed)"
  have split: "event_loop n = replicate ?q Observed @ (replicate (n - ?q) Observed @ [TimerFired])"
    using assms by (simp add: event_loop_def replicate_add [symmetric])
  have "waitForPublication eventId relays (event_loop n) =
        foldl (deliver relays) ?w (replicate (n - ?q) Observed @ [TimerFired])"
    unfolding split by (simp only: waitForPublication_def foldl_append)
  also have "\<dots> = ?w"
    by (rule settled_foldl [OF wait_inv_wait]) (simp only: observed_threshold wait_state.select_convs)
  finally show ?thesis by (simp only: observed_threshold)
qed

lemma wait_timed_out:
  assumes "n < max 1 (quorum (length relays))"
  shows "waitForPublication eventId relays (event_loop n) =
     \<lparr>confirmations = n, subscribed = False, timer_pending = False, settled = Resolved (),
      effects = [Subscribe relays eventId, SetTimeout 5000, Unsubscribe]\<rparr>"
proof -
  have "waitForPublication eventId relays (event_loop n) =
        deliver relays (waitForPublication eventId relays (replicate n Observed)) TimerFired"
    by (simp add: waitForPublication_def event_loop_def)
  then show ?thesis
    by (simp add: observed_below_threshold [OF assms] executor_def on_timeout_def)
qed

lemma wait_settles: "settled (waitForPublication eventId relays (event_loop n)) = Resolved ()"
  unfolding waitForPublication_def
  by (rule timer_settles_foldl [OF wait_inv_executor]) (simp add: event_loop_def)

subsection \<open>Publishing one article\<close>

lemma publishArticle_published:
  assumes "signer this = Some sg"
    and "relays = (case opt_relays options of None \<Rightarrow> defaultRelays | Some rs \<Rightarrow> rs)"
    and "createArticleId (pathname e) (url a) = Inr articleId"
    and "event = \<lparr>kind = 30023, created_at = now e div 1000, event_content = md,
                  event_tags = buildTags (toLowerCase e) a articleId\<rparr>"
    and "signEvent e sg event = Inr se"
    and "publish e relays se = Inr u"
  shows "publishArticle this e a md options =
     (SignEvent event # Publish relays se #
        effects (waitForPublication (event_id se) relays (event_loop (arrivals e relays (event_id se)))),
      Resolved (event_id se))"
  using assms by (simp add: publishArticle_def Let_def wait_settles)

lemma publishArticle_sign_failed:
  assumes "signer this = Some sg"
    and "createArticleId (pathname e) (url a) = Inr articleId"
    and "event = \<lparr>kind = 30023, created_at = now e div 1000, event_content = md,
                  event_tags = buildTags (toLowerCase e) a articleId\<rparr>"
    and "signEvent e sg event = Inl err"
  shows "publishArticle this e a md options = ([SignEvent event], Rejected err)"
  using assms by (simp add: publishArticle_def Let_def)

lemma publishArticle_settles: "snd (publishArticle this e a md options) \<noteq> Pending"
  by (simp add: publishArticle_def Let_def wait_settles split: option.splits sum.splits)

lemma wait_effects_no_sleep:
  "list_all (\<lambda>x. \<not> is_sleep x) (effects (waitForPublication eventId relays evs))"
proof -
  have step: "list_all (\<lambda>x. \<not> is_sleep x) (effects (deliver relays w ev))"
    if "list_all (\<lambda>x. \<not> is_sleep x) (effects w)" for w ev
    using that by (cases ev) (simp_all add: on_event_def on_timeout_def Let_def)
  have "list_all (\<lambda>x. \<not> is_sleep x) (effects (foldl (deliver relays) w evs))"
    if "list_all (\<lambda>x. \<not> is_sleep x) (effects w)" for w
    using that by (induction evs arbitrary: w) (simp_all add: step del: deliver.simps)
  then show ?thesis
    unfolding waitForPublication_def by (simp add: executor_def)
qed

lemma publishArticle_no_sleep:
  "list_all (\<lambda>x. \<not> is_sleep x) (fst (publishArticle this e a md options))"
  by (simp add: publishArticle_def Let_def wait_effects_no_sleep split: option.splits sum.splits)

subsection \<open>Publishing a batch\<close>

lemma publish_loop_unfolded:
  "publish_loop this envs articles options delayMs i eventIds trace =
     (trace @ concat (map (\<lambda>j. fst (item_outcome this envs articles options j) @
                               pause_after this envs articles options delayMs j)
                       [i..<length articles]),
      Resolved (eventIds @ concat (map (\<lambda>j. resolved_value (snd (item_outcome this envs articles options j)))
                                    [i..<length articles])))"
proof (induction "length articles - i" arbitrary: i eventIds trace)
  case 0
  then have "\<not> i < length articles" by simp
  then show ?case by (subst publish_loop.simps) simp
next
  case (Suc k)
  then have lt: "i < length articles" and k: "k = length articles - (i + 1)" by simp_all
  let ?r = "publishArticle this (envs i) (fst (articles ! i)) (snd (articles ! i)) options"
  have up: "[i..<length articles] = i # [i + 1..<length articles]"
    using lt by (simp add: upt_conv_Cons)
  show ?case
  proof (cases "snd ?r")
    case Pending
    then show ?thesis using publishArticle_settles [of this "envs i" "fst (articles ! i)" "snd (articles ! i)" options]
      by simp
  next
    case (Resolved eventId)
    show ?thesis
      apply (subst publish_loop.simps)
      using lt Resolved
      apply (simp only: if_True Let_def promise.case)
      apply (simp only: Suc.hyps(1) [OF k] up)
      apply (simp add: item_outcome_def pause_after_def)
      done
  next
    case (Rejected err)
    show ?thesis
      apply (subst publish_loop.simps)
      using lt Rejected
      apply (simp only: if_True Let_def promise.case)
      apply (simp only: Suc.hyps(1) [OF k] up)
      apply (simp add: item_outcome_def pause_after_def)
      done
  qed
qed

lemma filter_keeps_all: "list_all P xs \<Longrightarrow> filter P xs = xs"
  by (induction xs) simp_all

lemma resolved_value_length: "length (concat (map (\<lambda>i. resolved_value (f i)) is)) \<le> length is"
proof (induction "is")
  case Nil
  then show ?case by simp
next
  case (Cons i "is")
  then show ?case by (cases "f i") simp_all
qed

subsection \<open>Tags and identifiers\<close>

lemma digit_value_nth: "d < 10 \<Longrightarrow> digit_value (''0123456789'' ! d) = d"
proof -
  assume "d < 10"
  then have "d = 0 \<or> d = 1 \<or> d = 2 \<or> d = 3 \<or> d = 4 \<or> d = 5 \<or> d = 6 \<or> d = 7 \<or> d = 8 \<or> d = 9"
    by arith
  then show ?thesis by (elim disjE) (simp_all add: digit_value_def)
qed

lemma decimal_value_nat_toString: "decimal_value (nat_toString n) = n"
proof (induction n rule: nat_toString.induct)
  case (1 n)
  show ?case
  proof (cases "n < 10")
    case True
    then show ?thesis
      by (subst nat_toString.simps) (simp add: decimal_value_def digit_value_nth)
  next
    case False
    have "n mod 10 < 10" by simp
    with 1 False show ?thesis
      by (subst nat_toString.simps)
         (simp add: decimal_value_def digit_value_nth)
  qed
qed

lemma foldl_push_tags:
  "foldl (\<lambda>acc tag. acc @ [[''t'', f tag]]) xs ts = xs @ map (\<lambda>tag. [''t'', f tag]) ts"
  by (induction ts arbitrary: xs) simp_all

lemma buildTags_closed:
  "buildTags lower a articleId =
     [[''d'', articleId], [''title'', title a],
      [''published_at'', number_toString (publishedAt a div 1000)],
      [''client'', ''rekt-nostr-mirror''], [''r'', url a]] @
     (case summary a of Some s \<Rightarrow> if s \<noteq> [] then [[''summary'', s]] else [] | None \<Rightarrow> []) @
     (case image a of Some i \<Rightarrow> if i \<noteq> [] then [[''image'', i]] else [] | None \<Rightarrow> []) @
     map (\<lambda>tag. [''t'', lower tag]) (tags a) @
     [[''subject'', ''DeFi Security''], [''subject'', ''Blockchain'']]"
  by (simp add: buildTags_def Let_def foldl_push_tags split: option.splits)

lemma filter_d_tags: "filter (\<lambda>t. hd t = ''d'') (map (\<lambda>tag. [''t'', f tag]) ts) = []"
  by (induction ts) simp_all

subsection \<open>Signers\<close>

lemma ncryptsec_not_nsec: "prefix ''ncryptsec'' s \<Longrightarrow> \<not> prefix ''nsec'' s"
  by (auto simp: prefix_def)

lemma createSigner_validated:
  "createSigner lib s = Inr sg \<Longrightarrow> \<exists>pk. getPublicKey lib sg = Inr pk"
  by (auto simp: createSigner_def validated_def split: if_splits sum.splits)

lemma initialize_rejects:
  "createSigner lib s = Inl (Error msg) \<Longrightarrow>
   initialize lib this s = Inl (Error (''Failed to initialize signer: '' @ msg))"
  by (simp add: initialize_def)

lemma run_aborts:
  "\<not> dryRun config \<Longrightarrow> initialize lib this (cfg_signerString config) = Inl err \<Longrightarrow>
   run lib st envs this config = ([], Exit 1)"
  by (simp add: run_def)

lemma initialize_ignores_other_thrown_values:
  "createSigner lib s = Inl (NonError v) \<Longrightarrow> initialize lib this s = Inr this"
  by (simp add: initialize_def)

section \<open>Claims\<close>



text \<open>
  C2. The promise of the confirmation wait is never rejected, whatever the events. Once
  the timeout has fired the promise is resolved and the subscription released; when the
  timeout is the first event, with no observation at all, the wait ends resolved with a
  counter of zero after the 5000 ms timeout set by the executor. A publish whose signing
  and broadcast succeed resolves with the event identifier, however few events arrive.
\<close>

theorem wait_never_rejects:
  "(\<forall>err. settled (waitForPublication eventId relays evs) \<noteq> Rejected err) \<and>
   (TimerFired \<in> set evs \<longrightarrow>
      settled (waitForPublication eventId relays evs) = Resolved () \<and>
      \<not> subscribed (waitForPublication eventId relays evs)) \<and>
   waitForPublication eventId relays [TimerFired] =
     \<lparr>confirmations = 0, subscribed = False, timer_pending = False, settled = Resolved (),
      effects = [Subscribe relays eventId, SetTimeout 5000, Unsubscribe]\<rparr> \<and>
   (signer this = Some sg \<and>
    createArticleId (pathname e) (url a) = Inr articleId \<and>
    signEvent e sg \<lparr>kind = 30023, created_at = now e div 1000, event_content = md,
                    event_tags = buildTags (toLowerCase e) a articleId\<rparr> = Inr se \<and>
    publish e (case opt_relays options of None \<Rightarrow> defaultRelays | Some rs \<Rightarrow> rs) se = Inr u \<longrightarrow>
      snd (publishArticle this e a md options) = Resolved (event_id se))"
proof (intro conjI impI allI)
  let ?w = "waitForPublication eventId relays evs"
  have inv: "wait_inv ?w" by (rule wait_inv_wait)
  show "settled ?w \<noteq> Rejected err" for err
    using inv by (auto simp: wait_inv_def)
  {
    assume t: "TimerFired \<in> set evs"
    show r: "settled ?w = Resolved ()"
      unfolding waitForPublication_def by (rule timer_settles_foldl [OF wait_inv_executor t])
    with inv show "\<not> subscribed ?w" by (simp add: wait_inv_def)
  }
  show "waitForPublication eventId relays [TimerFired] =
     \<lparr>confirmations = 0, subscribed = False, timer_pending = False, settled = Resolved (),
      effects = [Subscribe relays eventId, SetTimeout 5000, Unsubscribe]\<rparr>"
    by (simp add: waitForPublication_def executor_def on_timeout_def)
  {
    assume "signer this = Some sg \<and>
      createArticleId (pathname e) (url a) = Inr articleId \<and>
      signEvent e sg \<lparr>kind = 30023, created_at = now e div 1000, event_content = md,
                    event_tags = buildTags (toLowerCase e) a articleId\<rparr> = Inr se \<and>
      publish e (case opt_relays options of None \<Rightarrow> defaultRelays | Some rs \<Rightarrow> rs) se = Inr u"
    then show "snd (publishArticle this e a md options) = Resolved (event_id se)"
      by (simp add: publishArticle_published [where sg = sg and se = se and articleId = articleId and u = u])
  }
qed

theorem wait_never_rejects_witness:
  "settled (waitForPublication ''e'' [''a'', ''b'', ''c''] [Observed, TimerFired]) = Resolved () \<and>
   \<not> subscribed (waitForPublication ''e'' [''a'', ''b'', ''c''] [Observed, TimerFired]) \<and>
   snd (publishArticle sample_publisher sample_env (sample_article ''/x/y/'') ''ok'' sample_options) =
     Resolved ''id-ok''"
  using wait_never_rejects [where evs = "[Observed, TimerFired]" and eventId = "''e''"
      and relays = "[''a'', ''b'', ''c'']" and this = sample_publisher and e = sample_env
      and a = "sample_article ''/x/y/''" and md = "''ok''" and options = sample_options
      and sg = "PrivateKeySigner ''k''" and articleId = "''x/y''" and u = "()"
      and se = "\<lparr>event_id = ''id-ok'',
                 payload = \<lparr>kind = 30023, created_at = now sample_env div 1000, event_content = ''ok'',
                   event_tags = buildTags (toLowerCase sample_env) (sample_article ''/x/y/'') ''x/y''\<rparr>\<rparr>"]
  by (simp add: sample_publisher_def sample_env_def sample_envs_def sample_article_def sample_options_def
      createArticleId_def strip_trailing_slash_def)

text \<open>
  C3. The quorum target of the confirmation wait is the ceiling of half the number of
  target relays: it is the one number \<open>q\<close> with \<open>n \<le> 2q < n + 2\<close>; for 1, 2, 3, 4, 5
  relays it is 1, 1, 2, 2, 3; and the callback of the subscription keeps the
  subscription exactly while twice the new counter is below the number of relays.
\<close>

theorem quorum_is_ceiling_of_half:
  "length relays \<le> 2 * quorum (length relays) \<and> 2 * quorum (length relays) < length relays + 2 \<and>
   map quorum [1, 2, 3, 4, 5] = [1, 1, 2, 2, 3] \<and>
   (subscribed (on_event relays w) \<longleftrightarrow> subscribed w \<and> 2 * (confirmations w + 1) < length relays)"
  by (auto simp: quorum_half on_event_def Let_def)

text \<open>
  C4. \<^verbatim>\<open>publishMultipleArticles\<close> always resolves, and with the identifiers of exactly the
  items whose publish resolved, in the order of the input; a rejected item adds nothing,
  so the result is at most as long as the input. Apart from the delays, its effects are
  the effects of item 0, then of item 1, and so on to the last item: every item is
  attempted, in order, whether or not an earlier one failed.
\<close>

theorem batch_returns_the_successes_in_order:
  "snd (publishMultipleArticles this envs articles options delayMs) =
     Resolved (concat (map (\<lambda>i. resolved_value (snd (item_outcome this envs articles options i)))
                           [0..<length articles])) \<and>
   filter (\<lambda>x. \<not> is_sleep x) (fst (publishMultipleArticles this envs articles options delayMs)) =
     concat (map (\<lambda>i. fst (item_outcome this envs articles options i)) [0..<length articles]) \<and>
   length (concat (map (\<lambda>i. resolved_value (snd (item_outcome this envs articles options i)))
                       [0..<length articles])) \<le> length articles"
proof (intro conjI)
  show "snd (publishMultipleArticles this envs articles options delayMs) =
     Resolved (concat (map (\<lambda>i. resolved_value (snd (item_outcome this envs articles options i)))
                           [0..<length articles]))"
    by (simp add: publishMultipleArticles_def publish_loop_unfolded)
  have one: "filter (\<lambda>x. \<not> is_sleep x)
               (fst (item_outcome this envs articles options i) @ pause_after this envs articles options d i) =
             fst (item_outcome this envs articles options i)" for i d
    by (simp add: filter_keeps_all [OF publishArticle_no_sleep] item_outcome_def pause_after_def)
  show "filter (\<lambda>x. \<not> is_sleep x) (fst (publishMultipleArticles this envs articles options delayMs)) =
     concat (map (\<lambda>i. fst (item_outcome this envs articles options i)) [0..<length articles])"
    by (simp add: publishMultipleArticles_def publish_loop_unfolded filter_concat comp_def one
        del: filter_append)
  show "length (concat (map (\<lambda>i. resolved_value (snd (item_outcome this envs articles options i)))
                       [0..<length articles])) \<le> length articles"
    using resolved_value_length [of "\<lambda>i. snd (item_outcome this envs articles options i)" "[0..<length articles]"]
    by simp
qed

theorem batch_returns_the_successes_in_order_witness:
  "snd (publishMultipleArticles sample_publisher sample_envs
          [(sample_article ''/one'', ''first''), (sample_article ''/two'', ''bad''),
           (sample_article ''/three'', ''third'')] sample_options None) =
     Resolved [''id-first'', ''id-third'']"
  using batch_returns_the_successes_in_order [of sample_publisher sample_envs
      "[(sample_article ''/one'', ''first''), (sample_article ''/two'', ''bad''),
        (sample_article ''/three'', ''third'')]" sample_options None]
  by (simp add: item_outcome_def upt_conv_Cons publishArticle_def sample_publisher_def sample_env_def sample_envs_def
      sample_article_def sample_options_def createArticleId_def strip_trailing_slash_def Let_def
      wait_settles del: upt_Suc)

text \<open>
  C5 as stated asks for a delay after a failed item too. In a batch of two whose first
  item fails at signing, the second item is published and no delay is taken at all.
\<close>

theorem no_delay_after_a_failed_item:
  "filter is_sleep
     (fst (publishMultipleArticles sample_publisher sample_envs
        [(sample_article ''/a'', ''bad''), (sample_article ''/b'', ''ok'')] sample_options None)) = [] \<and>
   snd (publishMultipleArticles sample_publisher sample_envs
        [(sample_article ''/a'', ''bad''), (sample_article ''/b'', ''ok'')] sample_options None) =
     Resolved [''id-ok'']"
  by (simp add: publishMultipleArticles_def publish_loop_unfolded item_outcome_def pause_after_def
      upt_conv_Cons publishArticle_def sample_publisher_def sample_env_def sample_envs_def sample_article_def
      sample_options_def createArticleId_def strip_trailing_slash_def Let_def
      wait_confirmed quorum_half
      del: upt_Suc)

text \<open>
  C5, as the code has it. The effects of \<^verbatim>\<open>publishMultipleArticles\<close> are, item after item,
  the effects of the item followed by one delay of the configured length (5000 ms when
  none is given) exactly when the item succeeded and is not the last one. After an item
  that failed the loop goes on to the next item with no delay, and no delay follows the
  last item.
\<close>

theorem delay_follows_each_success_but_the_last:
  "fst (publishMultipleArticles this envs articles options delayMs) =
     concat (map (\<lambda>i. fst (item_outcome this envs articles options i) @
                       (if resolved_value (snd (item_outcome this envs articles options i)) \<noteq> [] \<and>
                           i + 1 < length articles
                        then [Sleep (case delayMs of None \<Rightarrow> 5000 | Some d \<Rightarrow> d)] else []))
                 [0..<length articles])"
  by (simp add: publishMultipleArticles_def publish_loop_unfolded pause_after_def)

theorem delay_follows_each_success_but_the_last_witness:
  "filter is_sleep
     (fst (publishMultipleArticles sample_publisher sample_envs
        [(sample_article ''/one'', ''first''), (sample_article ''/two'', ''second'')]
        sample_options (Some 250))) = [Sleep 250]"
  using delay_follows_each_success_but_the_last [of sample_publisher sample_envs
      "[(sample_article ''/one'', ''first''), (sample_article ''/two'', ''second'')]"
      sample_options "Some 250"]
  by (simp add: item_outcome_def upt_conv_Cons publishArticle_def sample_publisher_def sample_env_def sample_envs_def
      sample_article_def sample_options_def createArticleId_def strip_trailing_slash_def Let_def
      wait_confirmed quorum_half del: upt_Suc)

text \<open>
  C6. \<^verbatim>\<open>createArticleId\<close> depends on the URL through its path component only. Of a path
  \<^verbatim>\<open>/m/\<close> it returns \<open>m\<close>, and of a path \<^verbatim>\<open>/m\<close> where \<open>m\<close> does not end in a slash it
  returns \<open>m\<close>, in both cases the literal \<^verbatim>\<open>article\<close> when \<open>m\<close> is empty. So the path
  \<^verbatim>\<open>/x/y/\<close> gives \<^verbatim>\<open>x/y\<close>, the path \<^verbatim>\<open>/\<close> gives the literal, the path \<^verbatim>\<open>/solo\<close> gives
  \<^verbatim>\<open>solo\<close>, and only one slash goes at each end: \<^verbatim>\<open>//a//\<close> gives \<^verbatim>\<open>/a/\<close>.
\<close>

theorem createArticleId_from_path:
  "(urlPathname u = Some (CHR ''/'' # m @ ''/'') \<longrightarrow>
      createArticleId urlPathname u = Inr (if m = [] then ''article'' else m)) \<and>
   (urlPathname u = Some (CHR ''/'' # m) \<and> (m = [] \<or> last m \<noteq> CHR ''/'') \<longrightarrow>
      createArticleId urlPathname u = Inr (if m = [] then ''article'' else m)) \<and>
   (urlPathname u = Some ''/x/y/'' \<longrightarrow> createArticleId urlPathname u = Inr ''x/y'') \<and>
   (urlPathname u = Some ''/'' \<longrightarrow> createArticleId urlPathname u = Inr ''article'') \<and>
   (urlPathname u = Some ''/solo'' \<longrightarrow> createArticleId urlPathname u = Inr ''solo'') \<and>
   (urlPathname u = Some ''//a//'' \<longrightarrow> createArticleId urlPathname u = Inr ''/a/'') \<and>
   (urlPathname u = urlPathname' u' \<longrightarrow> createArticleId urlPathname u = createArticleId urlPathname' u')"
  by (auto simp: createArticleId_def Let_def strip_trailing_slash_def)

theorem createArticleId_from_path_witness:
  "createArticleId (pathname sample_env) ''https://site/x/y/'' = Inr ''x/y'' \<and>
   createArticleId (pathname sample_env) ''https://site/'' = Inr ''article'' \<and>
   createArticleId (pathname sample_env) ''https://site/solo'' = Inr ''solo''"
  using createArticleId_from_path [of "pathname sample_env" "''https://site/x/y/''" "''x/y''"
      "pathname sample_env" "''https://site/x/y/''"]
    createArticleId_from_path [of "pathname sample_env" "''https://site/''" "''''"
      "pathname sample_env" "''https://site/''"]
    createArticleId_from_path [of "pathname sample_env" "''https://site/solo''" "''solo''"
      "pathname sample_env" "''https://site/solo''"]
  by (simp add: sample_env_def sample_envs_def)

text \<open>
  C7. For every article \<^verbatim>\<open>buildTags\<close> returns, in this order: \<^verbatim>\<open>d\<close> with the identifier,
  \<^verbatim>\<open>title\<close>, \<^verbatim>\<open>published_at\<close> with the whole seconds of the timestamp in decimal,
  \<^verbatim>\<open>client\<close> with the fixed literal, \<^verbatim>\<open>r\<close> with the URL, \<^verbatim>\<open>summary\<close> if the article has a
  (non-empty) summary, \<^verbatim>\<open>image\<close> if it has a (non-empty) image, one \<^verbatim>\<open>t\<close> per topic tag
  in lower case, and the two \<^verbatim>\<open>subject\<close> tags. The first tag is the \<^verbatim>\<open>d\<close> tag and it is
  the only \<^verbatim>\<open>d\<close> tag. The whole seconds are the floor of the milliseconds over 1000;
  for a timestamp at or after the epoch the decimal string denotes the milliseconds
  divided by 1000, the rest dropped. The event \<^verbatim>\<open>publishArticle\<close> hands to the signer
  carries these tags with the identifier derived from the article's URL.
\<close>

theorem buildTags_order:
  "buildTags lower a articleId =
     [[''d'', articleId], [''title'', title a],
      [''published_at'', number_toString (publishedAt a div 1000)],
      [''client'', ''rekt-nostr-mirror''], [''r'', url a]] @
     (case summary a of Some s \<Rightarrow> if s \<noteq> [] then [[''summary'', s]] else [] | None \<Rightarrow> []) @
     (case image a of Some i \<Rightarrow> if i \<noteq> [] then [[''image'', i]] else [] | None \<Rightarrow> []) @
     map (\<lambda>tag. [''t'', lower tag]) (tags a) @
     [[''subject'', ''DeFi Security''], [''subject'', ''Blockchain'']] \<and>
   hd (buildTags lower a articleId) = [''d'', articleId] \<and>
   filter (\<lambda>t. hd t = ''d'') (buildTags lower a articleId) = [[''d'', articleId]] \<and>
   (0 \<le> publishedAt a \<longrightarrow>
      decimal_value (number_toString (publishedAt a div 1000)) = nat (publishedAt a) div 1000) \<and>
   (signer this = Some sg \<and> createArticleId (pathname e) (url a) = Inr derived \<longrightarrow>
      hd (fst (publishArticle this e a md options)) =
        SignEvent \<lparr>kind = 30023, created_at = now e div 1000, event_content = md,
                   event_tags = buildTags (toLowerCase e) a derived\<rparr>)"
proof (intro conjI impI)
  show "buildTags lower a articleId =
     [[''d'', articleId], [''title'', title a],
      [''published_at'', number_toString (publishedAt a div 1000)],
      [''client'', ''rekt-nostr-mirror''], [''r'', url a]] @
     (case summary a of Some s \<Rightarrow> if s \<noteq> [] then [[''summary'', s]] else [] | None \<Rightarrow> []) @
     (case image a of Some i \<Rightarrow> if i \<noteq> [] then [[''image'', i]] else [] | None \<Rightarrow> []) @
     map (\<lambda>tag. [''t'', lower tag]) (tags a) @
     [[''subject'', ''DeFi Security''], [''subject'', ''Blockchain'']]"
    by (rule buildTags_closed)
  show "hd (buildTags lower a articleId) = [''d'', articleId]"
    by (simp add: buildTags_closed)
  show "filter (\<lambda>t. hd t = ''d'') (buildTags lower a articleId) = [[''d'', articleId]]"
    by (simp add: buildTags_closed filter_d_tags split: option.splits)
  {
    assume "0 \<le> publishedAt a"
    then have "0 \<le> publishedAt a div 1000" by simp
    then show "decimal_value (number_toString (publishedAt a div 1000)) = nat (publishedAt a) div 1000"
      by (simp add: number_toString_def decimal_value_nat_toString nat_div_distrib)
  }
  {
    assume "signer this = Some sg \<and> createArticleId (pathname e) (url a) = Inr derived"
    then show "hd (fst (publishArticle this e a md options)) =
        SignEvent \<lparr>kind = 30023, created_at = now e div 1000, event_content = md,
                   event_tags = buildTags (toLowerCase e) a derived\<rparr>"
      by (simp add: publishArticle_def Let_def split: sum.splits)
  }
qed

theorem buildTags_order_witness:
  "buildTags (toLowerCase sample_env)
     ((sample_article ''/x/y/'')\<lparr>summary := Some ''S'', image := Some ''I''\<rparr>) ''x/y'' =
     [[''d'', ''x/y''], [''title'', ''T''], [''published_at'', ''1700000000''],
      [''client'', ''rekt-nostr-mirror''], [''r'', ''https://site/x/y/''],
      [''summary'', ''S''], [''image'', ''I''], [''t'', ''rekt''],
      [''subject'', ''DeFi Security''], [''subject'', ''Blockchain'']] \<and>
   buildTags (toLowerCase sample_env) (sample_article ''/x/y/'') ''x/y'' =
     [[''d'', ''x/y''], [''title'', ''T''], [''published_at'', ''1700000000''],
      [''client'', ''rekt-nostr-mirror''], [''r'', ''https://site/x/y/''], [''t'', ''rekt''],
      [''subject'', ''DeFi Security''], [''subject'', ''Blockchain'']] \<and>
   hd (fst (publishArticle sample_publisher sample_env (sample_article ''/x/y/'') ''ok'' sample_options)) =
     SignEvent \<lparr>kind = 30023, created_at = 1700000000, event_content = ''ok'',
       event_tags = [[''d'', ''x/y''], [''title'', ''T''], [''published_at'', ''1700000000''],
         [''client'', ''rekt-nostr-mirror''], [''r'', ''https://site/x/y/''], [''t'', ''rekt''],
         [''subject'', ''DeFi Security''], [''subject'', ''Blockchain'']]\<rparr>"
proof -
  have n: "number_toString 1700000000 = ''1700000000''"
    by (simp add: number_toString_def nat_toString.simps)
  have h: "signer sample_publisher = Some (PrivateKeySigner ''k'') \<and>
      createArticleId (pathname sample_env) (url (sample_article ''/x/y/'')) = Inr ''x/y''"
    by (simp add: sample_publisher_def sample_env_def sample_envs_def sample_article_def createArticleId_def
        strip_trailing_slash_def)
  have p: "0 \<le> publishedAt (sample_article ''/x/y/'')" by (simp add: sample_article_def)
  note t1 = buildTags_order [of "toLowerCase sample_env"
      "(sample_article ''/x/y/'')\<lparr>summary := Some ''S'', image := Some ''I''\<rparr>" "''x/y''"
      sample_publisher "PrivateKeySigner ''k''" sample_env "''x/y''" "''ok''" sample_options]
  note t2 = buildTags_order [of "toLowerCase sample_env" "sample_article ''/x/y/''" "''x/y''"
      sample_publisher "PrivateKeySigner ''k''" sample_env "''x/y''" "''ok''" sample_options]
  from t1 have a: "buildTags (toLowerCase sample_env)
     ((sample_article ''/x/y/'')\<lparr>summary := Some ''S'', image := Some ''I''\<rparr>) ''x/y'' =
     [[''d'', ''x/y''], [''title'', ''T''], [''published_at'', ''1700000000''],
      [''client'', ''rekt-nostr-mirror''], [''r'', ''https://site/x/y/''],
      [''summary'', ''S''], [''image'', ''I''], [''t'', ''rekt''],
      [''subject'', ''DeFi Security''], [''subject'', ''Blockchain'']]"
    by (simp add: sample_article_def sample_env_def sample_envs_def n)
  from t2 have b: "buildTags (toLowerCase sample_env) (sample_article ''/x/y/'') ''x/y'' =
     [[''d'', ''x/y''], [''title'', ''T''], [''published_at'', ''1700000000''],
      [''client'', ''rekt-nostr-mirror''], [''r'', ''https://site/x/y/''], [''t'', ''rekt''],
      [''subject'', ''DeFi Security''], [''subject'', ''Blockchain'']]"
    by (simp add: sample_article_def sample_env_def sample_envs_def n)
  from t2 h have c: "hd (fst (publishArticle sample_publisher sample_env (sample_article ''/x/y/'') ''ok'' sample_options)) =
     SignEvent \<lparr>kind = 30023, created_at = now sample_env div 1000, event_content = ''ok'',
       event_tags = buildTags (toLowerCase sample_env) (sample_article ''/x/y/'') ''x/y''\<rparr>"
    by blast
  show ?thesis
    by (simp only: a b c) (simp add: sample_env_def sample_envs_def)
qed

text \<open>
  C8, where a failure is an \<^verbatim>\<open>Error\<close> object. \<^verbatim>\<open>createSigner\<close> dispatches on the
  prefix of the signer string: \<^verbatim>\<open>nsec\<close> gives a private-key signer and \<^verbatim>\<open>bunker://\<close> a remote signer, each once the library has built
  it and its public key has been fetched; \<^verbatim>\<open>ncryptsec\<close> fails with the error
  \<^verbatim>\<open>Ncryptsec signers are not supported\<close>; any other string fails with the error
  \<^verbatim>\<open>Invalid signer provided\<close>. A signer that is returned has had its public key fetched
  and is stored by \<^verbatim>\<open>initialize\<close>. When \<^verbatim>\<open>createSigner\<close> fails with such an error,
  \<^verbatim>\<open>initialize\<close> fails with \<^verbatim>\<open>Failed to initialize signer:\<close> and the message, and a run
  that is not a dry run exits with code 1 before it fetches or publishes anything.
\<close>

theorem signer_dispatch_and_fatal_errors:
  "(prefix ''nsec'' s \<and> fromKey lib s = Inr k \<and> getPublicKey lib (PrivateKeySigner k) = Inr pk \<longrightarrow>
      createSigner lib s = Inr (PrivateKeySigner k)) \<and>
   (prefix ''bunker://'' s \<and> fromBunkerURI lib s = Inr c \<and>
    getPublicKey lib (NostrConnectSigner c) = Inr pk \<longrightarrow>
      createSigner lib s = Inr (NostrConnectSigner c)) \<and>
   (prefix ''ncryptsec'' s \<longrightarrow>
      createSigner lib s = Inl (Error ''Ncryptsec signers are not supported'')) \<and>
   (\<not> prefix ''nsec'' s \<and> \<not> prefix ''ncryptsec'' s \<and> \<not> prefix ''bunker://'' s \<longrightarrow>
      (\<exists>rest. createSigner lib s = Inl (Error (''Invalid signer provided: '' @ take 10 s @ rest)))) \<and>
   (createSigner lib s = Inr sg \<longrightarrow>
      (\<exists>pk'. getPublicKey lib sg = Inr pk') \<and>
      ((\<exists>k'. sg = PrivateKeySigner k' \<and> prefix ''nsec'' s) \<or>
       (\<exists>c'. sg = NostrConnectSigner c' \<and> prefix ''bunker://'' s)) \<and>
      initialize lib this s = Inr (this\<lparr>signer := Some sg\<rparr>)) \<and>
   (createSigner lib s = Inl (Error msg) \<longrightarrow>
      initialize lib this s = Inl (Error (''Failed to initialize signer: '' @ msg)) \<and>
      (\<not> dryRun config \<and> cfg_signerString config = s \<longrightarrow>
         run lib st envs this config = ([], Exit 1)))"
proof (intro conjI impI)
  assume "prefix ''nsec'' s \<and> fromKey lib s = Inr k \<and> getPublicKey lib (PrivateKeySigner k) = Inr pk"
  then show "createSigner lib s = Inr (PrivateKeySigner k)"
    by (simp add: createSigner_def validated_def)
next
  assume a: "prefix ''bunker://'' s \<and> fromBunkerURI lib s = Inr c \<and>
    getPublicKey lib (NostrConnectSigner c) = Inr pk"
  then have "\<not> prefix ''nsec'' s" "\<not> prefix ''ncryptsec'' s" by (auto simp: prefix_def)
  with a show "createSigner lib s = Inr (NostrConnectSigner c)"
    by (simp add: createSigner_def validated_def)
next
  assume "prefix ''ncryptsec'' s"
  then show "createSigner lib s = Inl (Error ''Ncryptsec signers are not supported'')"
    by (simp add: createSigner_def ncryptsec_not_nsec)
next
  assume "\<not> prefix ''nsec'' s \<and> \<not> prefix ''ncryptsec'' s \<and> \<not> prefix ''bunker://'' s"
  then show "\<exists>rest. createSigner lib s = Inl (Error (''Invalid signer provided: '' @ take 10 s @ rest))"
    by (simp add: createSigner_def)
next
  assume ok: "createSigner lib s = Inr sg"
  then show "\<exists>pk'. getPublicKey lib sg = Inr pk'" by (rule createSigner_validated)
  from ok show "(\<exists>k'. sg = PrivateKeySigner k' \<and> prefix ''nsec'' s) \<or>
       (\<exists>c'. sg = NostrConnectSigner c' \<and> prefix ''bunker://'' s)"
    by (auto simp: createSigner_def validated_def split: if_splits sum.splits)
  from ok show "initialize lib this s = Inr (this\<lparr>signer := Some sg\<rparr>)"
    by (simp add: initialize_def)
next
  assume err: "createSigner lib s = Inl (Error msg)"
  then show rej: "initialize lib this s = Inl (Error (''Failed to initialize signer: '' @ msg))"
    by (rule initialize_rejects)
  assume "\<not> dryRun config \<and> cfg_signerString config = s"
  with rej show "run lib st envs this config = ([], Exit 1)"
    by (simp add: run_aborts)
qed

theorem signer_dispatch_and_fatal_errors_witness:
  "createSigner sample_library ''nsec1good'' = Inr (PrivateKeySigner ''key'') \<and>
   initialize sample_library \<lparr>signer = None\<rparr> ''nsec1good'' =
     Inr \<lparr>signer = Some (PrivateKeySigner ''key'')\<rparr> \<and>
   createSigner sample_library ''ncryptsec1abc'' = Inl (Error ''Ncryptsec signers are not supported'') \<and>
   initialize sample_library \<lparr>signer = None\<rparr> ''ncryptsec1abc'' =
     Inl (Error ''Failed to initialize signer: Ncryptsec signers are not supported'') \<and>
   run sample_library sample_site sample_envs \<lparr>signer = None\<rparr> (sample_config ''ncryptsec1abc'') =
     ([], Exit 1) \<and>
   run sample_library sample_site sample_envs \<lparr>signer = None\<rparr> (sample_config ''nsec1bad'') =
     ([], Exit 1)"
proof -
  note t1 = signer_dispatch_and_fatal_errors [of "''nsec1good''" sample_library "''key''" "''pubkey''"
      "''c''" "PrivateKeySigner ''key''" "\<lparr>signer = None\<rparr>" "''m''" "sample_config ''nsec1good''"
      sample_site sample_envs]
  note t2 = signer_dispatch_and_fatal_errors [of "''ncryptsec1abc''" sample_library "''key''" "''pubkey''"
      "''c''" "PrivateKeySigner ''key''" "\<lparr>signer = None\<rparr>" "''Ncryptsec signers are not supported''"
      "sample_config ''ncryptsec1abc''" sample_site sample_envs]
  note t3 = signer_dispatch_and_fatal_errors [of "''nsec1bad''" sample_library "''key''" "''pubkey''"
      "''c''" "PrivateKeySigner ''key''" "\<lparr>signer = None\<rparr>" "''Invalid nsec''"
      "sample_config ''nsec1bad''" sample_site sample_envs]
  have g: "prefix ''nsec'' ''nsec1good'' \<and> fromKey sample_library ''nsec1good'' = Inr ''key'' \<and>
      getPublicKey sample_library (PrivateKeySigner ''key'') = Inr ''pubkey''"
    by (simp add: sample_library_def)
  from t1 g have c1: "createSigner sample_library ''nsec1good'' = Inr (PrivateKeySigner ''key'')"
    by blast
  with t1 have c2: "initialize sample_library \<lparr>signer = None\<rparr> ''nsec1good'' =
     Inr (\<lparr>signer = None\<rparr>\<lparr>signer := Some (PrivateKeySigner ''key'')\<rparr>)"
    by blast
  have "prefix ''ncryptsec'' ''ncryptsec1abc''" by simp
  with t2 have c3: "createSigner sample_library ''ncryptsec1abc'' =
      Inl (Error ''Ncryptsec signers are not supported'')"
    by blast
  have d: "\<not> dryRun (sample_config s) \<and> cfg_signerString (sample_config s) = s" for s
    by (simp add: sample_config_def)
  from t2 c3 d [of "''ncryptsec1abc''"]
  have c4: "initialize sample_library \<lparr>signer = None\<rparr> ''ncryptsec1abc'' =
     Inl (Error (''Failed to initialize signer: '' @ ''Ncryptsec signers are not supported''))"
    and c5: "run sample_library sample_site sample_envs \<lparr>signer = None\<rparr>
        (sample_config ''ncryptsec1abc'') = ([], Exit 1)"
    by blast+
  have b: "createSigner sample_library ''nsec1bad'' = Inl (Error ''Invalid nsec'')"
    by (simp add: createSigner_def sample_library_def)
  from t3 b d [of "''nsec1bad''"]
  have c6: "run sample_library sample_site sample_envs \<lparr>signer = None\<rparr>
        (sample_config ''nsec1bad'') = ([], Exit 1)"
    by blast
  from c1 c2 c3 c4 c5 c6 show ?thesis by simp
qed

text \<open>
  C8, where the failure is not an \<^verbatim>\<open>Error\<close> object. The catch block of
  \<^verbatim>\<open>initialize\<close> throws only under \<^verbatim>\<open>error instanceof Error\<close>, while the catch block
  of \<^verbatim>\<open>publishArticle\<close> throws the error again in every case. With a library whose
  \<^verbatim>\<open>getPublicKey\<close> rejects with another value, \<^verbatim>\<open>createSigner\<close> fails on an
  \<^verbatim>\<open>nsec\<close> string at validation, and yet \<^verbatim>\<open>initialize\<close> resolves with no signer
  attached; the run does not exit: it fetches the articles and returns, also when
  there are articles to publish. The same holds of a \<^verbatim>\<open>bunker://\<close> string whose
  connection rejects so.
\<close>

theorem initialize_resolves_on_a_failed_validation:
  "createSigner sample_failing_library ''nsec1good'' = Inl (NonError ''rejected'') \<and>
   initialize sample_failing_library \<lparr>signer = None\<rparr> ''nsec1good'' = Inr \<lparr>signer = None\<rparr> \<and>
   run sample_failing_library sample_site sample_envs \<lparr>signer = None\<rparr> (sample_config ''nsec1good'') =
     ([FetchLatestArticles 50], Returned) \<and>
   run sample_failing_library sample_long_site sample_envs \<lparr>signer = None\<rparr>
     (sample_config ''nsec1good'') = ([FetchLatestArticles 50], Returned) \<and>
   createSigner sample_failing_library ''bunker://remote'' = Inl (NonError ''closed'') \<and>
   initialize sample_failing_library \<lparr>signer = None\<rparr> ''bunker://remote'' = Inr \<lparr>signer = None\<rparr>"
proof -
  have c: "createSigner sample_failing_library ''nsec1good'' = Inl (NonError ''rejected'')"
    by (simp add: createSigner_def validated_def sample_failing_library_def)
  have b: "createSigner sample_failing_library ''bunker://remote'' = Inl (NonError ''closed'')"
    by (simp add: createSigner_def sample_failing_library_def)
  have i: "initialize sample_failing_library \<lparr>signer = None\<rparr> ''nsec1good'' = Inr \<lparr>signer = None\<rparr>"
    by (simp add: initialize_def c)
  have r1: "run sample_failing_library sample_site sample_envs \<lparr>signer = None\<rparr>
      (sample_config ''nsec1good'') = ([FetchLatestArticles 50], Returned)"
    by (simp add: run_def i sample_config_def sample_site_def sample_article_def)
  have r2: "run sample_failing_library sample_long_site sample_envs \<lparr>signer = None\<rparr>
      (sample_config ''nsec1good'') = ([FetchLatestArticles 50], Returned)"
    by (simp add: run_def i sample_config_def sample_long_site_def sample_article_def Let_def
        publishMultipleArticles_def publish_loop_unfolded item_outcome_def pause_after_def
        publishArticle_def)
  show ?thesis
    by (simp add: c b i r1 r2 initialize_def)
qed

text \<open>
  C9. While no signer is attached, \<^verbatim>\<open>publishArticle\<close> rejects with the error
  \<^verbatim>\<open>Publisher not initialized. Call initialize() first.\<close> and performs no effect: nothing
  is handed to the signer, broadcast, subscribed to or waited for. This holds whatever
  the article, the options and the outside world are, so neither the identifier nor the
  tags are consulted.
\<close>

theorem publishArticle_requires_signer:
  "signer this = None \<Longrightarrow>
   publishArticle this e a md options =
     ([], Rejected (Error ''Publisher not initialized. Call initialize() first.''))"
  by (simp add: publishArticle_def)

theorem publishArticle_requires_signer_witness:
  "publishArticle \<lparr>signer = None\<rparr> sample_env (sample_article ''/a'') ''ok'' sample_options =
     ([], Rejected (Error ''Publisher not initialized. Call initialize() first.''))"
  using publishArticle_requires_signer [of "\<lparr>signer = None\<rparr>" sample_env "sample_article ''/a''" "''ok''"
      sample_options]
  by simp

text \<open>
  C10. With \<^verbatim>\<open>options.relays\<close> set to the empty list, \<^verbatim>\<open>publishArticle\<close> broadcasts to
  the empty list and subscribes on it; the quorum target is 0; and with no event
  delivered the wait is pending until the timeout fires, which unsubscribes and resolves
  it (the timeout is never cleared). Any list that is given is the list broadcast to,
  and the default relays are taken when \<^verbatim>\<open>options.relays\<close> is absent.
\<close>

theorem empty_relay_list_is_used_as_given:
  assumes "signer this = Some sg"
    and "createArticleId (pathname e) (url a) = Inr articleId"
    and "event = \<lparr>kind = 30023, created_at = now e div 1000, event_content = md,
                  event_tags = buildTags (toLowerCase e) a articleId\<rparr>"
    and "signEvent e sg event = Inr se"
    and "opt_relays options = Some []"
    and "publish e [] se = Inr u"
    and "arrivals e [] (event_id se) = 0"
  shows "publishArticle this e a md options =
           ([SignEvent event, Publish [] se, Subscribe [] (event_id se), SetTimeout 5000, Unsubscribe],
            Resolved (event_id se)) \<and>
         quorum (length ([] :: string list)) = 0 \<and>
         settled (waitForPublication (event_id se) [] []) = Pending \<and>
         waitForPublication (event_id se) [] [TimerFired] =
           \<lparr>confirmations = 0, subscribed = False, timer_pending = False, settled = Resolved (),
            effects = [Subscribe [] (event_id se), SetTimeout 5000, Unsubscribe]\<rparr> \<and>
         (\<forall>options' u'. opt_relays options' = None \<and> publish e defaultRelays se = Inr u' \<longrightarrow>
            take 2 (fst (publishArticle this e a md options')) =
              [SignEvent event, Publish defaultRelays se]) \<and>
         (\<forall>options' given u'. opt_relays options' = Some given \<and> publish e given se = Inr u' \<longrightarrow>
            take 2 (fst (publishArticle this e a md options')) =
              [SignEvent event, Publish given se])"
proof (intro conjI allI impI)
  have "publishArticle this e a md options =
     (SignEvent event # Publish [] se #
        effects (waitForPublication (event_id se) [] (event_loop (arrivals e [] (event_id se)))),
      Resolved (event_id se))"
    using assms by (intro publishArticle_published [where sg = sg and articleId = articleId and u = u]) simp_all
  then show "publishArticle this e a md options =
           ([SignEvent event, Publish [] se, Subscribe [] (event_id se), SetTimeout 5000, Unsubscribe],
            Resolved (event_id se))"
    using assms(7) by (simp add: wait_timed_out)
  show "quorum (length ([] :: string list)) = 0" by (simp add: quorum_half)
  show "settled (waitForPublication (event_id se) [] []) = Pending"
    by (simp add: waitForPublication_def executor_def)
  show "waitForPublication (event_id se) [] [TimerFired] =
           \<lparr>confirmations = 0, subscribed = False, timer_pending = False, settled = Resolved (),
            effects = [Subscribe [] (event_id se), SetTimeout 5000, Unsubscribe]\<rparr>"
    by (simp add: waitForPublication_def executor_def on_timeout_def)
  fix options' :: PublishOptions and u' :: unit
  assume "opt_relays options' = None \<and> publish e defaultRelays se = Inr u'"
  with assms(1-4) show "take 2 (fst (publishArticle this e a md options')) =
              [SignEvent event, Publish defaultRelays se]"
    by (simp add: publishArticle_published [where sg = sg and se = se and articleId = articleId and u = u'
          and relays = defaultRelays])
next
  fix options' :: PublishOptions and given :: "string list" and u' :: unit
  assume "opt_relays options' = Some given \<and> publish e given se = Inr u'"
  with assms(1-4) show "take 2 (fst (publishArticle this e a md options')) =
              [SignEvent event, Publish given se]"
    by (simp add: publishArticle_published [where sg = sg and se = se and articleId = articleId and u = u'
          and relays = given])
qed

theorem empty_relay_list_is_used_as_given_witness:
  "publishArticle sample_publisher sample_env (sample_article ''/a'') ''ok''
     \<lparr>opt_relays = Some [], opt_signerString = ''nsec1k''\<rparr> =
     ([SignEvent \<lparr>kind = 30023, created_at = 1700000000, event_content = ''ok'',
                   event_tags = buildTags (toLowerCase sample_env) (sample_article ''/a'') ''a''\<rparr>,
       Publish [] \<lparr>event_id = ''id-ok'',
                    payload = \<lparr>kind = 30023, created_at = 1700000000, event_content = ''ok'',
                      event_tags = buildTags (toLowerCase sample_env) (sample_article ''/a'') ''a''\<rparr>\<rparr>,
       Subscribe [] ''id-ok'', SetTimeout 5000, Unsubscribe],
      Resolved ''id-ok'')"
proof -
  have h: "signer sample_publisher = Some (PrivateKeySigner ''k'')"
    "createArticleId (pathname sample_env) (url (sample_article ''/a'')) = Inr ''a''"
    "\<lparr>kind = 30023, created_at = 1700000000, event_content = ''ok'',
       event_tags = buildTags (toLowerCase sample_env) (sample_article ''/a'') ''a''\<rparr> =
     \<lparr>kind = 30023, created_at = now sample_env div 1000, event_content = ''ok'',
       event_tags = buildTags (toLowerCase sample_env) (sample_article ''/a'') ''a''\<rparr>"
    "signEvent sample_env (PrivateKeySigner ''k'')
       \<lparr>kind = 30023, created_at = 1700000000, event_content = ''ok'',
         event_tags = buildTags (toLowerCase sample_env) (sample_article ''/a'') ''a''\<rparr> =
     Inr \<lparr>event_id = ''id-ok'',
           payload = \<lparr>kind = 30023, created_at = 1700000000, event_content = ''ok'',
             event_tags = buildTags (toLowerCase sample_env) (sample_article ''/a'') ''a''\<rparr>\<rparr>"
    "opt_relays \<lparr>opt_relays = Some [], opt_signerString = ''nsec1k''\<rparr> = Some []"
    "publish sample_env []
       \<lparr>event_id = ''id-ok'',
         payload = \<lparr>kind = 30023, created_at = 1700000000, event_content = ''ok'',
           event_tags = buildTags (toLowerCase sample_env) (sample_article ''/a'') ''a''\<rparr>\<rparr> = Inr ()"
    "arrivals sample_env []
       (event_id \<lparr>event_id = ''id-ok'',
         payload = \<lparr>kind = 30023, created_at = 1700000000, event_content = ''ok'',
           event_tags = buildTags (toLowerCase sample_env) (sample_article ''/a'') ''a''\<rparr>\<rparr>) = 0"
    by (simp_all add: sample_publisher_def sample_env_def sample_envs_def sample_article_def
        createArticleId_def strip_trailing_slash_def)
  from empty_relay_list_is_used_as_given [OF h] show ?thesis by simp
qed

end
